theory Spec2Isabelle
  imports Main "HOL-Library.Sublist"
begin

section \<open>JavaScript values used by the service\<close>

text \<open>
  A TypeScript value of type \<open>T\<close> that may also be \<open>undefined\<close> or \<open>null\<close> at run time
  (an optional property, an optional argument, the result of \<open>a?.b\<close>, an array read).
\<close>

datatype 'a maybe = Undefined | Null | Defined 'a

text \<open>
  Strings are byte strings: a JavaScript string is its UTF-8 encoding. The service only
  concatenates and compares them; lower-casing is the runtime's (see \<open>isBlockHasStyle\<close>).
\<close>

text \<open>
  A JavaScript number is \<open>NaN\<close>, one of the infinities, or a finite value. A finite value is
  given by the decimal numeral that the runtime's \<open>Number::toString\<close> selects for it (the
  integers \<open>s\<close> and \<open>n\<close> of its step 5, the shortest digits that read back as the number):
  \<open>Decimal neg s e\<close> is the number with digits \<open>s\<close> scaled by \<open>10 ^ e\<close>, negative when \<open>neg\<close>.
  So \<open>Decimal False 10 0\<close> is 10, \<open>Decimal False 404 0\<close> is 404, \<open>Decimal False 15 (- 1)\<close> is
  1.5 and \<open>Decimal False 1 21\<close> is 1e21; trailing zeros of the digits may be moved into the
  exponent, and the digits 0 are both zeros.
\<close>

datatype number = NaN | Infinity | NegInfinity | Decimal bool nat int

text \<open>
  The values stored in a \<open>Record<string, any>\<close> by this service are strings and numbers.
\<close>

datatype prim = Str string | Num number

type_synonym any = "prim maybe"

text \<open>Optional chaining \<open>a?.b\<close>: \<open>undefined\<close> when \<open>a\<close> is \<open>undefined\<close> or \<open>null\<close>.\<close>

definition opt :: "'a maybe \<Rightarrow> ('a \<Rightarrow> 'b maybe) \<Rightarrow> 'b maybe" where
  "opt a f = (case a of Defined v \<Rightarrow> f v | _ \<Rightarrow> Undefined)"

text \<open>Truthiness of a string-typed value: only a non-empty string is truthy.\<close>

definition truthy :: "string maybe \<Rightarrow> bool" where
  "truthy v = (case v of Defined s \<Rightarrow> s \<noteq> [] | _ \<Rightarrow> False)"

text \<open>Decimal numerals, most significant digit first.\<close>

definition digit_char :: "nat \<Rightarrow> char" where
  "digit_char d = char_of (48 + d)"

fun nat_digits :: "nat \<Rightarrow> string" where
  "nat_digits n =
     (if n < 10 then [digit_char n] else nat_digits (n div 10) @ [digit_char (n mod 10)])"

declare nat_digits.simps [simp del]

text \<open>The digits without trailing zeros, which go to the exponent.\<close>

fun strip_zeros :: "nat \<Rightarrow> int \<Rightarrow> nat \<times> int" where
  "strip_zeros s e =
     (if s \<noteq> 0 \<and> s mod 10 = 0 then strip_zeros (s div 10) (e + 1) else (s, e))"

declare strip_zeros.simps [simp del]

text \<open>
  \<open>Number::toString\<close> in radix 10: with \<open>k\<close> digits and the decimal point after digit \<open>n\<close>,
  an integer is written with its zeros (\<open>k \<le> n \<le> 21\<close>), a fraction with a point
  (\<open>0 < n < k\<close>) or with leading zeros (\<open>- 5 \<le> n \<le> 0\<close>), and every other number in
  exponent notation.
\<close>

definition Number_toString :: "number \<Rightarrow> string" where
  "Number_toString x =
     (case x of
        NaN \<Rightarrow> ''NaN''
      | Infinity \<Rightarrow> ''Infinity''
      | NegInfinity \<Rightarrow> ''-Infinity''
      | Decimal neg s0 e0 \<Rightarrow>
          if s0 = 0 then ''0''
          else (if neg then ''-'' else []) @
            (let (s, e) = strip_zeros s0 e0;
                 ds = nat_digits s;
                 k = int (length ds);
                 n = k + e
             in if - 5 \<le> n \<and> n \<le> 21
                then (if k \<le> n then ds @ replicate (nat (n - k)) (CHR ''0'')
                      else if 0 < n then take (nat n) ds @ ''.'' @ drop (nat n) ds
                      else ''0.'' @ replicate (nat (- n)) (CHR ''0'') @ ds)
                else (let ex = (if n < 0 then ''-'' else ''+'') @ nat_digits (nat \<bar>n - 1\<bar>)
                      in if k = 1 then ds @ ''e'' @ ex
                         else hd ds # ''.'' @ tl ds @ ''e'' @ ex)))"

text \<open>\<open>String(value)\<close>, which is also the conversion a template literal applies.\<close>

fun String :: "any \<Rightarrow> string" where
  "String Undefined = ''undefined''"
| "String Null = ''null''"
| "String (Defined (Str s)) = s"
| "String (Defined (Num n)) = Number_toString n"

text \<open>\<open>Array.prototype.includes\<close> (on strings the comparison is equality).\<close>

primrec Array_includes :: "'a list \<Rightarrow> 'a \<Rightarrow> bool" where
  "Array_includes [] x = False"
| "Array_includes (y # ys) x = (y = x \<or> Array_includes ys x)"

text \<open>An array read \<open>xs[i]\<close>: \<open>undefined\<close> out of range.\<close>

definition at_index :: "'a list \<Rightarrow> nat \<Rightarrow> 'a maybe" where
  "at_index xs i = (if i < length xs then Defined (xs ! i) else Undefined)"

text \<open>
  A plain object used as a dictionary keeps its keys in insertion order; assigning to an
  existing key replaces the value in place. \<open>Object.entries\<close> is then the list itself.
\<close>

fun obj_set :: "(string \<times> 'v) list \<Rightarrow> string \<Rightarrow> 'v \<Rightarrow> (string \<times> 'v) list" where
  "obj_set [] k v = [(k, v)]"
| "obj_set ((k', v') # kvs) k v = (if k' = k then (k, v) # kvs else (k', v') # obj_set kvs k v)"


section \<open>Response shapes\<close>

datatype MenuItem =
  MenuItem (title: string) (subtitle: "string maybe") (icon: string) (url: string)
    (styles: "string list") (children: "MenuItem list")

record Menu =
  id' :: string
  name :: string
  items :: "MenuItem list"

record Category =
  name :: string
  slug :: string

record CategoriesResponse =
  categories :: "Category list"

record ImageVariant =
  url :: string
  width :: number
  height :: number
  filename :: string

record Image =
  alt :: string
  variants :: "ImageVariant list"

record PageSummary =
  title :: string
  subtitle :: string
  coverImage :: "Image maybe"
  slug :: string
  categories :: "Category list"
  createdAt :: string
  updatedAt :: string

record PagesResponse =
  items :: "PageSummary list"
  total :: number

text \<open>
  Every content block carries \<open>styles\<close>; the parameter type \<open>{ styles: string[] }\<close> of
  \<open>isBlockHasStyle\<close> is the scheme of this record.
\<close>

record styled =
  styles :: "string list"

record HeaderBlock = styled +
  header :: string
  subheader :: "string maybe"
  size' :: string

record ListOption =
  title :: string
  subtitle :: "string maybe"

record ListBlock = styled +
  options :: "ListOption list"

record EmbedBlock = styled +
  url :: string

text \<open>
  \<open>getFirstImage\<close> guards against a missing \<open>images\<close> property, so the field may be
  \<open>undefined\<close> or \<open>null\<close> here.
\<close>

record ImageBlock = styled +
  images :: "Image list maybe"

record CodeBlock = styled +
  code :: string

record TextBlock = styled +
  text' :: string

record CtaBlock = styled +
  text' :: string
  url :: string
  description :: "string maybe"

record CustomBlock = styled +
  blockId :: string
  extra :: "(string \<times> any) list"

datatype ContentBlock =
    Header HeaderBlock
  | List ListBlock
  | Embed EmbedBlock
  | Image ImageBlock
  | Code CodeBlock
  | Text TextBlock
  | Cta CtaBlock
  | Custom CustomBlock

record PageMeta =
  title :: string
  description :: string

record PageDetail =
  title :: string
  subtitle :: string
  meta :: PageMeta
  coverImage :: "Image maybe"
  slug :: string
  categories :: "Category list"
  content :: "ContentBlock list"
  createdAt :: string
  updatedAt :: string

text \<open>Page filters and the argument of \<open>getPages\<close>; the code reads every level with \<open>?.\<close>.\<close>

record PageFilters_category =
  slug :: "string maybe"

record PageFilters =
  category :: "PageFilters_category maybe"

record GetPagesParams =
  filters :: "PageFilters maybe"
  start :: "number maybe"
  offset :: "number maybe"


section \<open>Configuration and transport\<close>

record JustCmsConfig =
  apiToken :: "string maybe"
  projectId :: "string maybe"

datatype http_method = GET | POST | PUT | DELETE

record request =
  req_method :: http_method
  req_url :: string
  req_headers :: "(string \<times> string) list"
  req_params :: "(string \<times> string) list"

record HttpErrorResponse =
  status :: number
  message :: string

datatype js_error = Error string

text \<open>
  The HTTP client is the state the service acts on: \<open>sent\<close> is the list of requests
  issued so far, \<open>backend\<close> is what the network answers to a request. A call of a
  service method below is the call together with one subscription to the observable it
  returns; its outcome is the value emitted (\<open>Inr\<close>) or the error signalled (\<open>Inl\<close>).
\<close>

record 'b HttpClient =
  backend :: "request \<Rightarrow> HttpErrorResponse + 'b"
  sent :: "request list"

definition HttpClient_get ::
  "string \<Rightarrow> (string \<times> string) list \<Rightarrow> (string \<times> string) list \<Rightarrow> 'b HttpClient
     \<Rightarrow> (HttpErrorResponse + 'b) \<times> 'b HttpClient" where
  "HttpClient_get u hs ps h =
     (let req = \<lparr>req_method = GET, req_url = u, req_headers = hs, req_params = ps\<rparr>
      in (backend h req, h\<lparr>sent := sent h @ [req]\<rparr>))"

text \<open>\<open>HttpParams.set\<close>: the value of the key is replaced, a new key is appended.\<close>

definition HttpParams_set ::
  "(string \<times> string) list \<Rightarrow> string \<Rightarrow> string \<Rightarrow> (string \<times> string) list" where
  "HttpParams_set ps k v = obj_set ps k v"

text \<open>The RxJS operators \<open>catchError\<close>, \<open>throwError\<close> and \<open>map\<close> on a single-shot outcome.\<close>

definition catchError :: "('e \<Rightarrow> 'f + 'a) \<Rightarrow> 'e + 'a \<Rightarrow> 'f + 'a" where
  "catchError handler r = (case r of Inl e \<Rightarrow> handler e | Inr v \<Rightarrow> Inr v)"

definition throwError :: "'e \<Rightarrow> 'e + 'a" where
  "throwError e = Inl e"

definition rx_map :: "('a \<Rightarrow> 'c) \<Rightarrow> 'e + 'a \<Rightarrow> 'e + 'c" where
  "rx_map f r = (case r of Inl e \<Rightarrow> Inl e | Inr v \<Rightarrow> Inr (f v))"


section \<open>The service\<close>

record JustCmsService =
  BASE_URL :: string
  config :: JustCmsConfig

definition constructor ::
  "JustCmsConfig \<Rightarrow> 'b HttpClient \<Rightarrow> (js_error + JustCmsService) \<times> 'b HttpClient" where
  "constructor cfg h =
     (if \<not> truthy (apiToken cfg) then (Inl (Error ''JustCMS API token is required''), h)
      else if \<not> truthy (projectId cfg) then (Inl (Error ''JustCMS project ID is required''), h)
      else (Inr \<lparr>BASE_URL = ''https://api.justcms.co/public'', config = cfg\<rparr>, h))"

text \<open>The body of the \<open>forEach\<close> over the entries of \<open>queryParams\<close>.\<close>

fun set_param :: "(string \<times> string) list \<Rightarrow> string \<times> any \<Rightarrow> (string \<times> string) list" where
  "set_param params (key, value) =
     (if value \<noteq> Undefined \<and> value \<noteq> Null then HttpParams_set params key (String value)
      else params)"

text \<open>
  \<open>get\<close>: an omitted \<open>endpoint\<close> (\<open>None\<close>) takes the default \<open>''\<close>; an omitted
  \<open>queryParams\<close> (\<open>None\<close>) leaves the parameters empty.
\<close>

definition get ::
  "JustCmsService \<Rightarrow> string option \<Rightarrow> (string \<times> any) list option \<Rightarrow> 'b HttpClient
     \<Rightarrow> (js_error + 'b) \<times> 'b HttpClient" where
  "get this endpoint_arg queryParams h =
     (let endpoint = (case endpoint_arg of None \<Rightarrow> [] | Some e \<Rightarrow> e);
          url = BASE_URL this @ ''/'' @ String (map_maybe Str (projectId (config this)))
                  @ (if endpoint \<noteq> [] then ''/'' @ endpoint else []);
          params = (case queryParams of None \<Rightarrow> [] | Some q \<Rightarrow> foldl set_param [] q);
          headers = [(''Authorization'',
                      ''Bearer '' @ String (map_maybe Str (apiToken (config this))))];
          (r, h') = HttpClient_get url headers params h
      in (catchError
            (\<lambda>error. throwError (Error (''JustCMS API error ''
                        @ String (Defined (Num (status error))) @ '': '' @ message error)))
            r,
          h'))"

definition getCategories ::
  "JustCmsService \<Rightarrow> CategoriesResponse HttpClient
     \<Rightarrow> (js_error + Category list) \<times> CategoriesResponse HttpClient" where
  "getCategories this h =
     (let (r, h') = get this None None h
      in (rx_map (\<lambda>response. CategoriesResponse.categories response) r, h'))"

text \<open>
  The query object that \<open>getPages\<close> fills: \<open>params?.filters?.category?.slug\<close> is stored when
  truthy, \<open>params?.start\<close> and \<open>params?.offset\<close> when not \<open>undefined\<close>.
\<close>

definition getPages_query :: "GetPagesParams maybe \<Rightarrow> (string \<times> any) list" where
  "getPages_query params =
     (let query = [];
          query = (if truthy (opt (opt (opt params filters) category) PageFilters_category.slug)
                   then obj_set query ''filter.category.slug''
                          (map_maybe Str
                             (opt (opt (opt params filters) category) PageFilters_category.slug))
                   else query);
          query = (if opt params start \<noteq> Undefined
                   then obj_set query ''start'' (map_maybe Num (opt params start))
                   else query);
          query = (if opt params offset \<noteq> Undefined
                   then obj_set query ''offset'' (map_maybe Num (opt params offset))
                   else query)
      in query)"

definition getPages ::
  "JustCmsService \<Rightarrow> GetPagesParams maybe \<Rightarrow> PagesResponse HttpClient
     \<Rightarrow> (js_error + PagesResponse) \<times> PagesResponse HttpClient" where
  "getPages this params h = get this (Some ''pages'') (Some (getPages_query params)) h"

definition getPageBySlug_query :: "string maybe \<Rightarrow> (string \<times> any) list" where
  "getPageBySlug_query version =
     (let query = [];
          query = (if truthy version then obj_set query ''v'' (map_maybe Str version) else query)
      in query)"

definition getPageBySlug ::
  "JustCmsService \<Rightarrow> string \<Rightarrow> string maybe \<Rightarrow> PageDetail HttpClient
     \<Rightarrow> (js_error + PageDetail) \<times> PageDetail HttpClient" where
  "getPageBySlug this page_slug version h =
     get this (Some (''pages/'' @ page_slug)) (Some (getPageBySlug_query version)) h"

definition getMenuById ::
  "JustCmsService \<Rightarrow> string \<Rightarrow> Menu HttpClient \<Rightarrow> (js_error + Menu) \<times> Menu HttpClient" where
  "getMenuById this i h = get this (Some (''menus/'' @ i)) None h"

text \<open>
  \<open>String.prototype.toLowerCase\<close> is the Unicode lower-casing of the runtime. It is the
  parameter \<open>toLowerCase\<close> of \<open>isBlockHasStyle\<close>, which applies it to the style and to every
  style of the block.
\<close>

definition isBlockHasStyle :: "(string \<Rightarrow> string) \<Rightarrow> 'a styled_scheme \<Rightarrow> string \<Rightarrow> bool" where
  "isBlockHasStyle toLowerCase block style =
     Array_includes (map (\<lambda>s. toLowerCase s) (styled.styles block)) (toLowerCase style)"

definition getLargeImageVariant :: "Image \<Rightarrow> ImageVariant maybe" where
  "getLargeImageVariant image' = at_index (variants image') 1"

definition getFirstImage :: "'a ImageBlock_scheme \<Rightarrow> Image maybe" where
  "getFirstImage block =
     (case images block of
        Defined imgs \<Rightarrow> (if length imgs > 0 then at_index imgs 0 else Undefined)
      | _ \<Rightarrow> Undefined)"

definition hasCategory :: "PageDetail \<Rightarrow> string \<Rightarrow> bool" where
  "hasCategory page categorySlug =
     Array_includes (map (\<lambda>category. Category.slug category) (PageDetail.categories page)) categorySlug"


section \<open>Example inputs\<close>

definition example_config :: JustCmsConfig where
  "example_config = \<lparr>apiToken = Defined ''secret'', projectId = Defined ''acme''\<rparr>"

definition example_service :: JustCmsService where
  "example_service = \<lparr>BASE_URL = ''https://api.justcms.co/public'', config = example_config\<rparr>"

definition failing_client :: "'b HttpClient" where
  "failing_client =
     \<lparr>backend = (\<lambda>req. Inl \<lparr>status = Decimal False 404 0, message = ''Not Found''\<rparr>),
      sent = []\<rparr>"

definition blog_params :: "GetPagesParams maybe" where
  "blog_params =
     Defined \<lparr>filters = Defined \<lparr>category = Defined \<lparr>slug = Defined ''blog''\<rparr>\<rparr>,
              start = Defined (Decimal False 10 0), offset = Defined (Decimal False 5 0)\<rparr>"


definition example_categories :: "Category list" where
  "example_categories =
     [\<lparr>Category.name = ''News'', Category.slug = ''news''\<rparr>,
      \<lparr>Category.name = ''Blog'', Category.slug = ''blog''\<rparr>]"

definition categories_client :: "CategoriesResponse HttpClient" where
  "categories_client =
     \<lparr>backend = (\<lambda>req. Inr \<lparr>CategoriesResponse.categories = example_categories\<rparr>), sent = []\<rparr>"

definition example_variant :: "string \<Rightarrow> nat \<Rightarrow> ImageVariant" where
  "example_variant f w =
     \<lparr>ImageVariant.url = ''https://cdn.example/'' @ f, width = Decimal False w 0,
      height = Decimal False w 0, filename = f\<rparr>"

text \<open>
  Lower-casing of the ASCII letters, every other byte kept: what \<open>String.prototype.toLowerCase\<close>
  does to a string of ASCII characters.
\<close>

definition ascii_toLowerCase_char :: "char \<Rightarrow> char" where
  "ascii_toLowerCase_char c =
     (let n = (of_char c :: nat) in if 65 \<le> n \<and> n \<le> 90 then char_of (n + 32) else c)"

definition ascii_toLowerCase :: "string \<Rightarrow> string" where
  "ascii_toLowerCase s = map ascii_toLowerCase_char s"

definition example_image :: "ImageVariant list \<Rightarrow> Image" where
  "example_image vs = \<lparr>alt = ''cover'', variants = vs\<rparr>"

definition example_page :: "Category list \<Rightarrow> PageDetail" where
  "example_page cs =
     \<lparr>PageDetail.title = ''About us'', PageDetail.subtitle = ''Who we are'',
      meta = \<lparr>PageMeta.title = ''About'', PageMeta.description = ''About us''\<rparr>,
      PageDetail.coverImage = Null, PageDetail.slug = ''about-us'',
      PageDetail.categories = cs, content = [],
      PageDetail.createdAt = ''2024-01-01T00:00:00Z'',
      PageDetail.updatedAt = ''2024-01-02T00:00:00Z''\<rparr>"


section \<open>Properties of the model\<close>

subsection \<open>Construction and the request of \<open>get\<close>\<close>

lemma truthy_absent: "\<not> truthy v \<longleftrightarrow> v \<in> {Undefined, Null, Defined []}"
  by (cases v) (simp_all add: truthy_def)

lemma constructor_success:
  "constructor cfg h = (Inr this, h') \<longleftrightarrow>
     truthy (apiToken cfg) \<and> truthy (projectId cfg) \<and> h' = h \<and>
     this = \<lparr>BASE_URL = ''https://api.justcms.co/public'', config = cfg\<rparr>"
  by (auto simp: constructor_def)

lemma get_sent:
  "snd (get this e q h) =
     h\<lparr>sent := sent h @
        [\<lparr>req_method = GET,
          req_url = BASE_URL this @ ''/'' @ String (map_maybe Str (projectId (config this)))
                      @ (case e of None \<Rightarrow> [] | Some ep \<Rightarrow> if ep \<noteq> [] then ''/'' @ ep else []),
          req_headers = [(''Authorization'',
                          ''Bearer '' @ String (map_maybe Str (apiToken (config this))))],
          req_params = (case q of None \<Rightarrow> [] | Some kvs \<Rightarrow> foldl set_param [] kvs)\<rparr>]\<rparr>"
  by (simp add: get_def HttpClient_get_def Let_def split: option.split)

lemma get_outcome:
  "fst (get this e q h) =
     (case backend h (last (sent (snd (get this e q h)))) of
        Inl err \<Rightarrow> Inl (Error (''JustCMS API error '' @ Number_toString (status err)
                                 @ '': '' @ message err))
      | Inr body \<Rightarrow> Inr body)"
  by (simp add: get_def HttpClient_get_def Let_def catchError_def throwError_def
           split: option.split sum.split)

lemma getPages_query_absent:
  "foldl set_param [] (getPages_query Undefined) = []"
  "foldl set_param [] (getPages_query Null) = []"
  by (simp_all add: getPages_query_def opt_def truthy_def)

lemma getPages_query_object:
  "foldl set_param [] (getPages_query (Defined p)) =
            (case filters p of
               Defined f \<Rightarrow>
                 (case category f of
                    Defined c \<Rightarrow>
                      (case PageFilters_category.slug c of
                         Defined s \<Rightarrow> if s \<noteq> [] then [(''filter.category.slug'', s)] else []
                       | _ \<Rightarrow> [])
                  | _ \<Rightarrow> [])
             | _ \<Rightarrow> [])
            @ (case start p of Defined n \<Rightarrow> [(''start'', Number_toString n)] | _ \<Rightarrow> [])
            @ (case offset p of Defined n \<Rightarrow> [(''offset'', Number_toString n)] | _ \<Rightarrow> [])"
  by (simp add: getPages_query_def opt_def truthy_def HttpParams_set_def split: maybe.splits)

lemma getPageBySlug_query_eq:
  "foldl set_param [] (getPageBySlug_query version) =
     (case version of Defined s \<Rightarrow> if s \<noteq> [] then [(''v'', s)] else [] | _ \<Rightarrow> [])"
  by (cases version) (simp_all add: getPageBySlug_query_def truthy_def HttpParams_set_def)

lemma constructed_service:
  assumes "constructor \<lparr>apiToken = Defined tok, projectId = Defined pid\<rparr> h0 = (Inr this, h1)"
  shows "this = \<lparr>BASE_URL = ''https://api.justcms.co/public'',
                  config = \<lparr>apiToken = Defined tok, projectId = Defined pid\<rparr>\<rparr>"
  using assms by (simp add: constructor_success)

lemma example_constructed:
  "constructor \<lparr>apiToken = Defined ''secret'', projectId = Defined ''acme''\<rparr> (failing_client :: 'b HttpClient)
     = (Inr example_service, failing_client)"
  by (simp add: constructor_def truthy_def example_service_def example_config_def)

lemma getPages_sent_absent:
  assumes "params = Undefined \<or> params = Null"
  shows "snd (getPages this params h) =
     h\<lparr>sent := sent h @
        [\<lparr>req_method = GET,
          req_url = BASE_URL this @ ''/'' @ String (map_maybe Str (projectId (config this)))
                      @ ''/pages'',
          req_headers = [(''Authorization'',
                          ''Bearer '' @ String (map_maybe Str (apiToken (config this))))],
          req_params = []\<rparr>]\<rparr>"
  using assms by (auto simp: getPages_def get_sent getPages_query_absent)

lemma getPages_sent_object:
  "snd (getPages this (Defined p) h) =
     h\<lparr>sent := sent h @
        [\<lparr>req_method = GET,
          req_url = BASE_URL this @ ''/'' @ String (map_maybe Str (projectId (config this)))
                      @ ''/pages'',
          req_headers = [(''Authorization'',
                          ''Bearer '' @ String (map_maybe Str (apiToken (config this))))],
          req_params =
            (case filters p of
               Defined f \<Rightarrow>
                 (case category f of
                    Defined c \<Rightarrow>
                      (case PageFilters_category.slug c of
                         Defined s \<Rightarrow> if s \<noteq> [] then [(''filter.category.slug'', s)] else []
                       | _ \<Rightarrow> [])
                  | _ \<Rightarrow> [])
             | _ \<Rightarrow> [])
            @ (case start p of Defined n \<Rightarrow> [(''start'', Number_toString n)] | _ \<Rightarrow> [])
            @ (case offset p of Defined n \<Rightarrow> [(''offset'', Number_toString n)] | _ \<Rightarrow> [])\<rparr>]\<rparr>"
  by (simp add: getPages_def get_sent getPages_query_object)

lemma getPages_params_absent:
  assumes "params = Undefined \<or> params = Null"
  shows "req_params (last (sent (snd (getPages this params h)))) = []"
  by (simp add: getPages_sent_absent [OF assms])

lemma getPages_params_object:
  "req_params (last (sent (snd (getPages this (Defined p) h)))) =
            (case filters p of
               Defined f \<Rightarrow>
                 (case category f of
                    Defined c \<Rightarrow>
                      (case PageFilters_category.slug c of
                         Defined s \<Rightarrow> if s \<noteq> [] then [(''filter.category.slug'', s)] else []
                       | _ \<Rightarrow> [])
                  | _ \<Rightarrow> [])
             | _ \<Rightarrow> [])
            @ (case start p of Defined n \<Rightarrow> [(''start'', Number_toString n)] | _ \<Rightarrow> [])
            @ (case offset p of Defined n \<Rightarrow> [(''offset'', Number_toString n)] | _ \<Rightarrow> [])"
  by (simp add: getPages_sent_object)

subsection \<open>Query parameters of \<open>getPages\<close>\<close>

text \<open>
  C1: a call of \<open>getPages\<close> on a constructed service issues one GET to
  \<open>{base}/{projectId}/pages\<close>. Called with an object, its query parameters are, in this
  order, \<open>filter.category.slug\<close> when \<open>filters.category.slug\<close> is a non-empty string, \<open>start\<close>
  when \<open>start\<close> is a number and \<open>offset\<close> when \<open>offset\<close> is a number, each with the string
  form of that value; called without argument (or with \<open>null\<close>) it has no query parameter.
  So each of the three parameters occurs only when the argument is an object whose
  corresponding value is neither \<open>undefined\<close> nor \<open>null\<close>. The call with slug \<open>blog\<close>,
  start 10 and offset 5 has exactly \<open>filter.category.slug=blog\<close>, \<open>start=10\<close>, \<open>offset=5\<close>.
\<close>

theorem getPages_query_parameters:
  assumes "constructor \<lparr>apiToken = Defined tok, projectId = Defined pid\<rparr> h0 = (Inr this, h1)"
  shows "snd (getPages this (Defined p) h) =
           h\<lparr>sent := sent h @
              [\<lparr>req_method = GET,
                req_url = ''https://api.justcms.co/public/'' @ pid @ ''/pages'',
                req_headers = [(''Authorization'', ''Bearer '' @ tok)],
                req_params =
            (case filters p of
               Defined f \<Rightarrow>
                 (case category f of
                    Defined c \<Rightarrow>
                      (case PageFilters_category.slug c of
                         Defined s \<Rightarrow> if s \<noteq> [] then [(''filter.category.slug'', s)] else []
                       | _ \<Rightarrow> [])
                  | _ \<Rightarrow> [])
             | _ \<Rightarrow> [])
            @ (case start p of Defined n \<Rightarrow> [(''start'', Number_toString n)] | _ \<Rightarrow> [])
            @ (case offset p of Defined n \<Rightarrow> [(''offset'', Number_toString n)] | _ \<Rightarrow> [])\<rparr>]\<rparr>
         \<and> snd (getPages this Undefined h) =
           h\<lparr>sent := sent h @
              [\<lparr>req_method = GET,
                req_url = ''https://api.justcms.co/public/'' @ pid @ ''/pages'',
                req_headers = [(''Authorization'', ''Bearer '' @ tok)],
                req_params = []\<rparr>]\<rparr>
         \<and> snd (getPages this Null h) =
           h\<lparr>sent := sent h @
              [\<lparr>req_method = GET,
                req_url = ''https://api.justcms.co/public/'' @ pid @ ''/pages'',
                req_headers = [(''Authorization'', ''Bearer '' @ tok)],
                req_params = []\<rparr>]\<rparr>
         \<and> (''filter.category.slug'' \<in> fst ` set (req_params (last (sent (snd (getPages this params h)))))
              \<longrightarrow> (\<exists>q f c. params = Defined q \<and> filters q = Defined f \<and> category f = Defined c
                           \<and> PageFilters_category.slug c \<notin> {Undefined, Null}))
         \<and> (''start'' \<in> fst ` set (req_params (last (sent (snd (getPages this params h)))))
              \<longrightarrow> (\<exists>q. params = Defined q \<and> start q \<notin> {Undefined, Null}))
         \<and> (''offset'' \<in> fst ` set (req_params (last (sent (snd (getPages this params h)))))
              \<longrightarrow> (\<exists>q. params = Defined q \<and> offset q \<notin> {Undefined, Null}))
         \<and> snd (getPages this
                  (Defined \<lparr>filters = Defined \<lparr>category = Defined \<lparr>slug = Defined ''blog''\<rparr>\<rparr>,
                       start = Defined (Decimal False 10 0),
                       offset = Defined (Decimal False 5 0)\<rparr>) h) =
           h\<lparr>sent := sent h @
              [\<lparr>req_method = GET,
                req_url = ''https://api.justcms.co/public/'' @ pid @ ''/pages'',
                req_headers = [(''Authorization'', ''Bearer '' @ tok)],
                req_params = [(''filter.category.slug'', ''blog''), (''start'', ''10''), (''offset'', ''5'')]\<rparr>]\<rparr>"
proof -
  have this_eq: "this = \<lparr>BASE_URL = ''https://api.justcms.co/public'',
                         config = \<lparr>apiToken = Defined tok, projectId = Defined pid\<rparr>\<rparr>"
    using assms by (rule constructed_service)
  have object: "snd (getPages this (Defined p) h) =
           h\<lparr>sent := sent h @
              [\<lparr>req_method = GET,
                req_url = ''https://api.justcms.co/public/'' @ pid @ ''/pages'',
                req_headers = [(''Authorization'', ''Bearer '' @ tok)],
                req_params =
            (case filters p of
               Defined f \<Rightarrow>
                 (case category f of
                    Defined c \<Rightarrow>
                      (case PageFilters_category.slug c of
                         Defined s \<Rightarrow> if s \<noteq> [] then [(''filter.category.slug'', s)] else []
                       | _ \<Rightarrow> [])
                  | _ \<Rightarrow> [])
             | _ \<Rightarrow> [])
            @ (case start p of Defined n \<Rightarrow> [(''start'', Number_toString n)] | _ \<Rightarrow> [])
            @ (case offset p of Defined n \<Rightarrow> [(''offset'', Number_toString n)] | _ \<Rightarrow> [])\<rparr>]\<rparr>" for p
    by (simp add: getPages_sent_object this_eq)
  have absent: "snd (getPages this a h) =
           h\<lparr>sent := sent h @
              [\<lparr>req_method = GET,
                req_url = ''https://api.justcms.co/public/'' @ pid @ ''/pages'',
                req_headers = [(''Authorization'', ''Bearer '' @ tok)],
                req_params = []\<rparr>]\<rparr>" if "a = Undefined \<or> a = Null" for a
    by (simp add: getPages_sent_absent [OF that] this_eq)
  have slug_only: "''filter.category.slug'' \<in> fst ` set (req_params (last (sent (snd (getPages this params h)))))
              \<longrightarrow> (\<exists>q f c. params = Defined q \<and> filters q = Defined f \<and> category f = Defined c
                           \<and> PageFilters_category.slug c \<notin> {Undefined, Null})"
  proof (cases params)
    case (Defined q)
    then show ?thesis
      by (auto simp: getPages_params_object split: maybe.splits if_splits)
         (metis maybe.distinct)
  qed (simp_all add: getPages_params_absent)
  have start_only: "''start'' \<in> fst ` set (req_params (last (sent (snd (getPages this params h)))))
              \<longrightarrow> (\<exists>q. params = Defined q \<and> start q \<notin> {Undefined, Null})"
  proof (cases params)
    case (Defined q)
    then show ?thesis
      by (auto simp: getPages_params_object split: maybe.splits if_splits)
  qed (simp_all add: getPages_params_absent)
  have offset_only: "''offset'' \<in> fst ` set (req_params (last (sent (snd (getPages this params h)))))
              \<longrightarrow> (\<exists>q. params = Defined q \<and> offset q \<notin> {Undefined, Null})"
  proof (cases params)
    case (Defined q)
    then show ?thesis
      by (auto simp: getPages_params_object split: maybe.splits if_splits)
  qed (simp_all add: getPages_params_absent)
  have ten: "Number_toString (Decimal False 10 0) = ''10''"
    by code_simp
  have five: "Number_toString (Decimal False 5 0) = ''5''"
    by code_simp
  have blog: "snd (getPages this
                  (Defined \<lparr>filters = Defined \<lparr>category = Defined \<lparr>slug = Defined ''blog''\<rparr>\<rparr>,
                       start = Defined (Decimal False 10 0),
                       offset = Defined (Decimal False 5 0)\<rparr>) h) =
           h\<lparr>sent := sent h @
              [\<lparr>req_method = GET,
                req_url = ''https://api.justcms.co/public/'' @ pid @ ''/pages'',
                req_headers = [(''Authorization'', ''Bearer '' @ tok)],
                req_params = [(''filter.category.slug'', ''blog''), (''start'', ''10''), (''offset'', ''5'')]\<rparr>]\<rparr>"
    by (simp add: object ten five)
  from object [of p] absent [of Undefined] absent [of Null] slug_only start_only offset_only blog
  show ?thesis by (intro conjI) simp_all
qed

text \<open>The hypotheses of C1 hold for the example service and the \<open>blog\<close> call.\<close>

theorem getPages_query_parameters_witness:
  "constructor \<lparr>apiToken = Defined ''secret'', projectId = Defined ''acme''\<rparr>
       (failing_client :: PagesResponse HttpClient) = (Inr example_service, failing_client)
   \<and> ''filter.category.slug''
        \<in> fst ` set (req_params (last (sent (snd (getPages example_service blog_params
             (failing_client :: PagesResponse HttpClient))))))
   \<and> ''start''
        \<in> fst ` set (req_params (last (sent (snd (getPages example_service blog_params
             (failing_client :: PagesResponse HttpClient))))))
   \<and> ''offset''
        \<in> fst ` set (req_params (last (sent (snd (getPages example_service blog_params
             (failing_client :: PagesResponse HttpClient))))))
   \<and> (\<exists>q f c. blog_params = Defined q \<and> filters q = Defined f \<and> category f = Defined c
                \<and> PageFilters_category.slug c \<notin> {Undefined, Null})
   \<and> (\<exists>q. blog_params = Defined q \<and> start q \<notin> {Undefined, Null})
   \<and> (\<exists>q. blog_params = Defined q \<and> offset q \<notin> {Undefined, Null})
   \<and> sent (snd (getPages example_service blog_params
                  (failing_client :: PagesResponse HttpClient))) =
        [\<lparr>req_method = GET,
          req_url = ''https://api.justcms.co/public/acme/pages'',
          req_headers = [(''Authorization'', ''Bearer secret'')],
          req_params = [(''filter.category.slug'', ''blog''), (''start'', ''10''),
                        (''offset'', ''5'')]\<rparr>]"
proof -
  have built:
    "constructor \<lparr>apiToken = Defined ''secret'', projectId = Defined ''acme''\<rparr>
       (failing_client :: PagesResponse HttpClient) = (Inr example_service, failing_client)"
    by (rule example_constructed)
  note inst =
    getPages_query_parameters
      [OF built, where params = blog_params and h = failing_client
         and p = "\<lparr>filters = Undefined, start = Undefined, offset = Undefined\<rparr>"]
  have "snd (getPages example_service blog_params (failing_client :: PagesResponse HttpClient)) =
          failing_client\<lparr>sent := sent (failing_client :: PagesResponse HttpClient) @
            [\<lparr>req_method = GET,
              req_url = ''https://api.justcms.co/public/'' @ ''acme'' @ ''/pages'',
              req_headers = [(''Authorization'', ''Bearer '' @ ''secret'')],
              req_params = [(''filter.category.slug'', ''blog''), (''start'', ''10''),
                            (''offset'', ''5'')]\<rparr>]\<rparr>"
    unfolding blog_params_def using inst by (elim conjE)
  then have sent_eq:
    "sent (snd (getPages example_service blog_params (failing_client :: PagesResponse HttpClient))) =
       [\<lparr>req_method = GET,
         req_url = ''https://api.justcms.co/public/acme/pages'',
         req_headers = [(''Authorization'', ''Bearer secret'')],
         req_params = [(''filter.category.slug'', ''blog''), (''start'', ''10''),
                       (''offset'', ''5'')]\<rparr>]"
    by (simp add: failing_client_def)
  have only_when:
    "(''filter.category.slug''
        \<in> fst ` set (req_params (last (sent (snd (getPages example_service blog_params
             (failing_client :: PagesResponse HttpClient))))))
      \<longrightarrow> (\<exists>q f c. blog_params = Defined q \<and> filters q = Defined f \<and> category f = Defined c
                   \<and> PageFilters_category.slug c \<notin> {Undefined, Null}))
     \<and> (''start''
        \<in> fst ` set (req_params (last (sent (snd (getPages example_service blog_params
             (failing_client :: PagesResponse HttpClient))))))
      \<longrightarrow> (\<exists>q. blog_params = Defined q \<and> start q \<notin> {Undefined, Null}))
     \<and> (''offset''
        \<in> fst ` set (req_params (last (sent (snd (getPages example_service blog_params
             (failing_client :: PagesResponse HttpClient))))))
      \<longrightarrow> (\<exists>q. blog_params = Defined q \<and> offset q \<notin> {Undefined, Null}))"
    using inst by (elim conjE) (intro conjI)
  show ?thesis
    using built only_when unfolding sent_eq by simp
qed

subsection \<open>Construction\<close>

text \<open>
  C2: constructing the service with an empty or absent \<open>apiToken\<close> fails with the message
  \<open>JustCMS API token is required\<close>; with a token present and an empty or absent
  \<open>projectId\<close> it fails with the message \<open>JustCMS project ID is required\<close>; so an empty
  or absent \<open>projectId\<close> always fails. The two messages differ, and the HTTP client is
  returned as it was: no request has been issued.
\<close>

theorem constructor_configuration_errors:
  "(apiToken cfg \<in> {Undefined, Null, Defined []} \<longrightarrow>
      constructor cfg h = (Inl (Error ''JustCMS API token is required''), h))
   \<and> (apiToken cfg \<notin> {Undefined, Null, Defined []}
        \<and> projectId cfg \<in> {Undefined, Null, Defined []} \<longrightarrow>
      constructor cfg h = (Inl (Error ''JustCMS project ID is required''), h))
   \<and> (projectId cfg \<in> {Undefined, Null, Defined []} \<longrightarrow>
      (\<exists>msg. constructor cfg h = (Inl (Error msg), h)))
   \<and> Error ''JustCMS API token is required'' \<noteq> Error ''JustCMS project ID is required''"
proof -
  have token: "apiToken cfg \<in> {Undefined, Null, Defined []} \<longrightarrow>
      constructor cfg h = (Inl (Error ''JustCMS API token is required''), h)"
    by (cases "apiToken cfg") (simp_all add: constructor_def truthy_def)
  have project: "apiToken cfg \<notin> {Undefined, Null, Defined []}
        \<and> projectId cfg \<in> {Undefined, Null, Defined []} \<longrightarrow>
      constructor cfg h = (Inl (Error ''JustCMS project ID is required''), h)"
    by (cases "apiToken cfg"; cases "projectId cfg") (simp_all add: constructor_def truthy_def)
  have either: "projectId cfg \<in> {Undefined, Null, Defined []} \<longrightarrow>
      (\<exists>msg. constructor cfg h = (Inl (Error msg), h))"
    by (cases "apiToken cfg"; cases "projectId cfg") (simp_all add: constructor_def truthy_def)
  have distinct: "Error ''JustCMS API token is required'' \<noteq> Error ''JustCMS project ID is required''"
    by simp
  from token project either distinct show ?thesis by (intro conjI)
qed

text \<open>C2 at an empty token, and at a present token with an absent project id.\<close>

theorem constructor_configuration_errors_witness:
  "apiToken \<lparr>apiToken = Defined [], projectId = Defined ''acme''\<rparr> \<in> {Undefined, Null, Defined []}
   \<and> constructor \<lparr>apiToken = Defined [], projectId = Defined ''acme''\<rparr>
        (failing_client :: Menu HttpClient)
       = (Inl (Error ''JustCMS API token is required''), failing_client)
   \<and> apiToken \<lparr>apiToken = Defined ''secret'', projectId = Undefined\<rparr>
        \<notin> {Undefined, Null, Defined []}
   \<and> projectId \<lparr>apiToken = Defined ''secret'', projectId = Undefined\<rparr>
        \<in> {Undefined, Null, Defined []}
   \<and> constructor \<lparr>apiToken = Defined ''secret'', projectId = Undefined\<rparr>
        (failing_client :: Menu HttpClient)
       = (Inl (Error ''JustCMS project ID is required''), failing_client)"
  using constructor_configuration_errors
          [of "\<lparr>apiToken = Defined [], projectId = Defined ''acme''\<rparr>"
              "failing_client :: Menu HttpClient"]
        constructor_configuration_errors
          [of "\<lparr>apiToken = Defined ''secret'', projectId = Undefined\<rparr>"
              "failing_client :: Menu HttpClient"]
  by simp

subsection \<open>The requests of the other calls\<close>

lemma getCategories_outcome:
  "fst (getCategories this h) =
     (case backend h (last (sent (snd (getCategories this h)))) of
        Inl err \<Rightarrow> Inl (Error (''JustCMS API error '' @ Number_toString (status err)
                                 @ '': '' @ message err))
      | Inr body \<Rightarrow> Inr (CategoriesResponse.categories body))"
  using get_outcome [of this None None h]
  by (simp add: getCategories_def rx_map_def split_beta split: sum.splits)

lemma getCategories_sent:
  "snd (getCategories this h) =
     h\<lparr>sent := sent h @
        [\<lparr>req_method = GET,
          req_url = BASE_URL this @ ''/'' @ String (map_maybe Str (projectId (config this))),
          req_headers = [(''Authorization'',
                          ''Bearer '' @ String (map_maybe Str (apiToken (config this))))],
          req_params = []\<rparr>]\<rparr>"
  using get_sent [of this None None h] by (simp add: getCategories_def split_beta)

lemma getPageBySlug_sent:
  "snd (getPageBySlug this page_slug version h) =
     h\<lparr>sent := sent h @
        [\<lparr>req_method = GET,
          req_url = BASE_URL this @ ''/'' @ String (map_maybe Str (projectId (config this)))
                      @ ''/pages/'' @ page_slug,
          req_headers = [(''Authorization'',
                          ''Bearer '' @ String (map_maybe Str (apiToken (config this))))],
          req_params = (case version of
                          Defined v \<Rightarrow> if v \<noteq> [] then [(''v'', v)] else []
                        | _ \<Rightarrow> [])\<rparr>]\<rparr>"
  by (simp add: getPageBySlug_def get_sent getPageBySlug_query_eq)

lemma getMenuById_sent:
  "snd (getMenuById this menu h) =
     h\<lparr>sent := sent h @
        [\<lparr>req_method = GET,
          req_url = BASE_URL this @ ''/'' @ String (map_maybe Str (projectId (config this)))
                      @ ''/menus/'' @ menu,
          req_headers = [(''Authorization'',
                          ''Bearer '' @ String (map_maybe Str (apiToken (config this))))],
          req_params = []\<rparr>]\<rparr>"
  by (simp add: getMenuById_def get_sent)

subsection \<open>Transport failures\<close>

text \<open>
  C3: whenever the transport answers the request of a client call with a failure, the call
  signals the error whose message is \<open>JustCMS API error {status}: {message}\<close>, built from
  the status code and the message of the failure and nothing else. This holds for
  \<open>getCategories\<close>, \<open>getPages\<close>, \<open>getPageBySlug\<close> and \<open>getMenuById\<close>. For status 404 and
  message \<open>Not Found\<close> the message is \<open>JustCMS API error 404: Not Found\<close>, which contains
  both \<open>404\<close> and \<open>Not Found\<close>.
\<close>

theorem transport_failure_normalized:
  "(backend hc (last (sent (snd (getCategories this hc)))) = Inl err \<longrightarrow>
      fst (getCategories this hc) =
        Inl (Error (''JustCMS API error '' @ Number_toString (status err)
                      @ '': '' @ message err)))
   \<and> (backend hp (last (sent (snd (getPages this params hp)))) = Inl err \<longrightarrow>
      fst (getPages this params hp) =
        Inl (Error (''JustCMS API error '' @ Number_toString (status err)
                      @ '': '' @ message err)))
   \<and> (backend hs (last (sent (snd (getPageBySlug this page_slug version hs)))) = Inl err \<longrightarrow>
      fst (getPageBySlug this page_slug version hs) =
        Inl (Error (''JustCMS API error '' @ Number_toString (status err)
                      @ '': '' @ message err)))
   \<and> (backend hm (last (sent (snd (getMenuById this menu hm)))) = Inl err \<longrightarrow>
      fst (getMenuById this menu hm) =
        Inl (Error (''JustCMS API error '' @ Number_toString (status err)
                      @ '': '' @ message err)))
   \<and> ''JustCMS API error '' @ Number_toString (Decimal False 404 0) @ '': '' @ ''Not Found''
        = ''JustCMS API error 404: Not Found''
   \<and> sublist ''404'' (''JustCMS API error '' @ Number_toString (Decimal False 404 0) @ '': '' @ ''Not Found'')
   \<and> sublist ''Not Found'' (''JustCMS API error '' @ Number_toString (Decimal False 404 0) @ '': '' @ ''Not Found'')"
proof -
  have cats: "backend hc (last (sent (snd (getCategories this hc)))) = Inl err \<longrightarrow>
      fst (getCategories this hc) =
        Inl (Error (''JustCMS API error '' @ Number_toString (status err)
                      @ '': '' @ message err))"
    by (simp add: getCategories_outcome)
  have pages: "backend hp (last (sent (snd (getPages this params hp)))) = Inl err \<longrightarrow>
      fst (getPages this params hp) =
        Inl (Error (''JustCMS API error '' @ Number_toString (status err)
                      @ '': '' @ message err))"
    unfolding getPages_def by (simp add: get_outcome)
  have page: "backend hs (last (sent (snd (getPageBySlug this page_slug version hs)))) = Inl err \<longrightarrow>
      fst (getPageBySlug this page_slug version hs) =
        Inl (Error (''JustCMS API error '' @ Number_toString (status err)
                      @ '': '' @ message err))"
    unfolding getPageBySlug_def by (simp add: get_outcome)
  have menu: "backend hm (last (sent (snd (getMenuById this menu hm)))) = Inl err \<longrightarrow>
      fst (getMenuById this menu hm) =
        Inl (Error (''JustCMS API error '' @ Number_toString (status err)
                      @ '': '' @ message err))"
    unfolding getMenuById_def by (simp add: get_outcome)
  have num: "Number_toString (Decimal False 404 0) = ''404''"
    by code_simp
  have msg: "''JustCMS API error '' @ Number_toString (Decimal False 404 0) @ '': '' @ ''Not Found''
        = ''JustCMS API error 404: Not Found''"
    by (simp add: num)
  have has_status:
    "sublist ''404'' (''JustCMS API error '' @ Number_toString (Decimal False 404 0) @ '': '' @ ''Not Found'')"
    unfolding num by (rule sublist_appendI)
  have has_message:
    "sublist ''Not Found'' (''JustCMS API error '' @ Number_toString (Decimal False 404 0) @ '': '' @ ''Not Found'')"
    using sublist_append_leftI [of "''Not Found''" "''JustCMS API error '' @ Number_toString (Decimal False 404 0) @ '': ''"]
    by simp
  from cats pages page menu msg has_status has_message show ?thesis by (intro conjI)
qed

text \<open>C3 on a transport that answers every request with 404, \<open>Not Found\<close>.\<close>

theorem transport_failure_normalized_witness:
  "backend (failing_client :: CategoriesResponse HttpClient)
       (last (sent (snd (getCategories example_service failing_client))))
     = Inl \<lparr>status = Decimal False 404 0, message = ''Not Found''\<rparr>
   \<and> fst (getCategories example_service failing_client)
       = Inl (Error ''JustCMS API error 404: Not Found'')
   \<and> backend (failing_client :: PagesResponse HttpClient)
       (last (sent (snd (getPages example_service blog_params failing_client))))
     = Inl \<lparr>status = Decimal False 404 0, message = ''Not Found''\<rparr>
   \<and> fst (getPages example_service blog_params failing_client)
       = Inl (Error ''JustCMS API error 404: Not Found'')
   \<and> backend (failing_client :: PageDetail HttpClient)
       (last (sent (snd (getPageBySlug example_service ''about-us'' Undefined failing_client))))
     = Inl \<lparr>status = Decimal False 404 0, message = ''Not Found''\<rparr>
   \<and> fst (getPageBySlug example_service ''about-us'' Undefined failing_client)
       = Inl (Error ''JustCMS API error 404: Not Found'')
   \<and> backend (failing_client :: Menu HttpClient)
       (last (sent (snd (getMenuById example_service ''main-menu'' failing_client))))
     = Inl \<lparr>status = Decimal False 404 0, message = ''Not Found''\<rparr>
   \<and> fst (getMenuById example_service ''main-menu'' failing_client)
       = Inl (Error ''JustCMS API error 404: Not Found'')"
proof -
  have fails: "backend (failing_client :: 'b HttpClient) r
                 = Inl \<lparr>status = Decimal False 404 0, message = ''Not Found''\<rparr>" for r
    by (simp add: failing_client_def)
  note inst =
    transport_failure_normalized
      [where err = "\<lparr>status = Decimal False 404 0, message = ''Not Found''\<rparr>"
         and this = example_service
         and hc = failing_client and hp = failing_client and params = blog_params
         and hs = failing_client and page_slug = "''about-us''" and version = Undefined
         and hm = failing_client and menu = "''main-menu''"]
  show ?thesis
    using inst by (simp add: fails)
qed

subsection \<open>Categories\<close>

text \<open>
  C4: \<open>getCategories\<close> on a constructed service issues exactly one request, a GET to
  \<open>{base}/{projectId}\<close> without endpoint suffix and without query parameters, carrying the
  header \<open>Authorization: Bearer {apiToken}\<close>. When the transport answers it with a body,
  the call returns the \<open>categories\<close> list of that body, unchanged.
\<close>

theorem getCategories_request_and_result:
  assumes "constructor \<lparr>apiToken = Defined tok, projectId = Defined pid\<rparr> h0 = (Inr this, h1)"
  shows "snd (getCategories this h) =
           h\<lparr>sent := sent h @
              [\<lparr>req_method = GET,
                req_url = ''https://api.justcms.co/public/'' @ pid,
                req_headers = [(''Authorization'', ''Bearer '' @ tok)],
                req_params = []\<rparr>]\<rparr>
         \<and> (backend h \<lparr>req_method = GET,
                        req_url = ''https://api.justcms.co/public/'' @ pid,
                        req_headers = [(''Authorization'', ''Bearer '' @ tok)],
                        req_params = []\<rparr> = Inr body
              \<longrightarrow> fst (getCategories this h) = Inr (CategoriesResponse.categories body))"
proof -
  have this_eq: "this = \<lparr>BASE_URL = ''https://api.justcms.co/public'',
                         config = \<lparr>apiToken = Defined tok, projectId = Defined pid\<rparr>\<rparr>"
    using assms by (rule constructed_service)
  have sent_eq: "snd (getCategories this h) =
           h\<lparr>sent := sent h @
              [\<lparr>req_method = GET,
                req_url = ''https://api.justcms.co/public/'' @ pid,
                req_headers = [(''Authorization'', ''Bearer '' @ tok)],
                req_params = []\<rparr>]\<rparr>"
    by (simp add: getCategories_sent this_eq)
  have result: "backend h \<lparr>req_method = GET,
                        req_url = ''https://api.justcms.co/public/'' @ pid,
                        req_headers = [(''Authorization'', ''Bearer '' @ tok)],
                        req_params = []\<rparr> = Inr body
              \<longrightarrow> fst (getCategories this h) = Inr (CategoriesResponse.categories body)"
    using getCategories_outcome [of this h] by (simp add: sent_eq)
  from sent_eq result show ?thesis by (intro conjI)
qed

text \<open>C4 on a transport that answers with two categories.\<close>

theorem getCategories_request_and_result_witness:
  "constructor \<lparr>apiToken = Defined ''secret'', projectId = Defined ''acme''\<rparr>
       (failing_client :: CategoriesResponse HttpClient) = (Inr example_service, failing_client)
   \<and> backend categories_client
        \<lparr>req_method = GET, req_url = ''https://api.justcms.co/public/acme'',
          req_headers = [(''Authorization'', ''Bearer secret'')], req_params = []\<rparr>
       = Inr \<lparr>CategoriesResponse.categories = example_categories\<rparr>
   \<and> sent (snd (getCategories example_service categories_client)) =
        [\<lparr>req_method = GET, req_url = ''https://api.justcms.co/public/acme'',
          req_headers = [(''Authorization'', ''Bearer secret'')], req_params = []\<rparr>]
   \<and> fst (getCategories example_service categories_client) = Inr example_categories"
proof -
  have built:
    "constructor \<lparr>apiToken = Defined ''secret'', projectId = Defined ''acme''\<rparr>
       (failing_client :: CategoriesResponse HttpClient) = (Inr example_service, failing_client)"
    by (rule example_constructed)
  have answers: "backend categories_client r
                   = Inr \<lparr>CategoriesResponse.categories = example_categories\<rparr>" for r
    by (simp add: categories_client_def)
  have empty: "sent categories_client = []"
    by (simp add: categories_client_def)
  note inst =
    getCategories_request_and_result
      [OF built, where h = categories_client
                   and body = "\<lparr>CategoriesResponse.categories = example_categories\<rparr>"]
  show ?thesis
    using built inst by (simp add: answers empty)
qed

subsection \<open>A page by its slug\<close>

text \<open>
  C5: \<open>getPageBySlug\<close> on a constructed service issues one GET to
  \<open>{base}/{projectId}/pages/{slug}\<close>. Called without version, the request has no query
  parameter; called with a version (a non-empty string, such as \<open>draft\<close>) its only query
  parameter is \<open>v\<close>, set to that version.
\<close>

theorem getPageBySlug_request:
  assumes "constructor \<lparr>apiToken = Defined tok, projectId = Defined pid\<rparr> h0 = (Inr this, h1)"
  shows "snd (getPageBySlug this page_slug version h) =
           h\<lparr>sent := sent h @
              [\<lparr>req_method = GET,
                req_url = ''https://api.justcms.co/public/'' @ pid @ ''/pages/'' @ page_slug,
                req_headers = [(''Authorization'', ''Bearer '' @ tok)],
                req_params = (case version of
                                Defined v \<Rightarrow> if v \<noteq> [] then [(''v'', v)] else []
                              | _ \<Rightarrow> [])\<rparr>]\<rparr>
         \<and> req_params (last (sent (snd (getPageBySlug this page_slug Undefined h)))) = []
         \<and> (v \<noteq> [] \<longrightarrow>
              req_params (last (sent (snd (getPageBySlug this page_slug (Defined v) h))))
                = [(''v'', v)])
         \<and> snd (getPageBySlug this ''about-us'' (Defined ''draft'') h) =
             h\<lparr>sent := sent h @
                [\<lparr>req_method = GET,
                  req_url = ''https://api.justcms.co/public/'' @ pid @ ''/pages/about-us'',
                  req_headers = [(''Authorization'', ''Bearer '' @ tok)],
                  req_params = [(''v'', ''draft'')]\<rparr>]\<rparr>"
proof -
  have this_eq: "this = \<lparr>BASE_URL = ''https://api.justcms.co/public'',
                         config = \<lparr>apiToken = Defined tok, projectId = Defined pid\<rparr>\<rparr>"
    using assms by (rule constructed_service)
  have sent_eq: "snd (getPageBySlug this s ver h) =
           h\<lparr>sent := sent h @
              [\<lparr>req_method = GET,
                req_url = ''https://api.justcms.co/public/'' @ pid @ ''/pages/'' @ s,
                req_headers = [(''Authorization'', ''Bearer '' @ tok)],
                req_params = (case ver of
                                Defined v \<Rightarrow> if v \<noteq> [] then [(''v'', v)] else []
                              | _ \<Rightarrow> [])\<rparr>]\<rparr>" for s ver
    by (simp add: getPageBySlug_sent this_eq)
  have absent: "req_params (last (sent (snd (getPageBySlug this page_slug Undefined h)))) = []"
    by (simp add: sent_eq)
  have given: "v \<noteq> [] \<longrightarrow>
              req_params (last (sent (snd (getPageBySlug this page_slug (Defined v) h))))
                = [(''v'', v)]"
    by (simp add: sent_eq)
  have draft: "snd (getPageBySlug this ''about-us'' (Defined ''draft'') h) =
             h\<lparr>sent := sent h @
                [\<lparr>req_method = GET,
                  req_url = ''https://api.justcms.co/public/'' @ pid @ ''/pages/about-us'',
                  req_headers = [(''Authorization'', ''Bearer '' @ tok)],
                  req_params = [(''v'', ''draft'')]\<rparr>]\<rparr>"
    by (simp add: sent_eq)
  from sent_eq [of page_slug version] absent given draft show ?thesis by (intro conjI)
qed

text \<open>C5 for the page \<open>about-us\<close>, with version \<open>draft\<close> and without version.\<close>

theorem getPageBySlug_request_witness:
  "constructor \<lparr>apiToken = Defined ''secret'', projectId = Defined ''acme''\<rparr>
       (failing_client :: PageDetail HttpClient) = (Inr example_service, failing_client)
   \<and> ''draft'' \<noteq> []
   \<and> sent (snd (getPageBySlug example_service ''about-us'' (Defined ''draft'')
                  (failing_client :: PageDetail HttpClient))) =
        [\<lparr>req_method = GET, req_url = ''https://api.justcms.co/public/acme/pages/about-us'',
          req_headers = [(''Authorization'', ''Bearer secret'')],
          req_params = [(''v'', ''draft'')]\<rparr>]
   \<and> req_params (last (sent (snd (getPageBySlug example_service ''about-us'' Undefined
                  (failing_client :: PageDetail HttpClient))))) = []"
proof -
  have built:
    "constructor \<lparr>apiToken = Defined ''secret'', projectId = Defined ''acme''\<rparr>
       (failing_client :: PageDetail HttpClient) = (Inr example_service, failing_client)"
    by (rule example_constructed)
  have empty: "sent (failing_client :: PageDetail HttpClient) = []"
    by (simp add: failing_client_def)
  note inst =
    getPageBySlug_request
      [OF built, where h = failing_client and page_slug = "''about-us''"
                   and version = "Defined ''draft''" and v = "''draft''"]
  show ?thesis
    using built inst by (simp add: empty)
qed

subsection \<open>Utilities\<close>

lemma Array_includes_iff: "Array_includes xs x \<longleftrightarrow> x \<in> set xs"
  by (induction xs) auto

text \<open>
  C6: whatever the lower-casing of the runtime is, \<open>isBlockHasStyle\<close> holds exactly when the
  lower-cased style is one of the lower-cased styles of the block; the function has no
  failing branch and returns a boolean on every block with a list of styles. As the
  runtime lower-cases \<open>Highlight\<close> to \<open>highlight\<close> and \<open>Bold\<close> to \<open>bold\<close> and leaves \<open>highlight\<close>
  as it is, the function holds for the styles \<open>Highlight\<close>, \<open>Bold\<close> and the style
  \<open>highlight\<close>, and does not hold for the styles \<open>Bold\<close> and the style \<open>highlight\<close>.
\<close>

theorem isBlockHasStyle_case_insensitive:
  "(isBlockHasStyle toLowerCase block style
      \<longleftrightarrow> toLowerCase style \<in> set (map toLowerCase (styled.styles block)))
   \<and> (toLowerCase ''Highlight'' = ''highlight'' \<and> toLowerCase ''highlight'' = ''highlight''
        \<longrightarrow> isBlockHasStyle toLowerCase \<lparr>styled.styles = [''Highlight'', ''Bold'']\<rparr> ''highlight'')
   \<and> (toLowerCase ''Bold'' = ''bold'' \<and> toLowerCase ''highlight'' = ''highlight''
        \<longrightarrow> \<not> isBlockHasStyle toLowerCase \<lparr>styled.styles = [''Bold'']\<rparr> ''highlight'')"
proof -
  have member: "isBlockHasStyle toLowerCase b st
      \<longleftrightarrow> toLowerCase st \<in> set (map toLowerCase (styled.styles b))" for b :: "'b styled_scheme" and st
    by (simp add: isBlockHasStyle_def Array_includes_iff)
  have yes: "toLowerCase ''Highlight'' = ''highlight'' \<and> toLowerCase ''highlight'' = ''highlight''
        \<longrightarrow> isBlockHasStyle toLowerCase \<lparr>styled.styles = [''Highlight'', ''Bold'']\<rparr> ''highlight''"
    by (simp add: member)
  have no: "toLowerCase ''Bold'' = ''bold'' \<and> toLowerCase ''highlight'' = ''highlight''
        \<longrightarrow> \<not> isBlockHasStyle toLowerCase \<lparr>styled.styles = [''Bold'']\<rparr> ''highlight''"
    by (simp add: member)
  from member [of block style] yes no show ?thesis by (intro conjI)
qed

text \<open>C6 with the lower-casing of ASCII strings, at the two examples.\<close>

theorem isBlockHasStyle_case_insensitive_witness:
  "ascii_toLowerCase ''Highlight'' = ''highlight''
   \<and> ascii_toLowerCase ''Bold'' = ''bold''
   \<and> ascii_toLowerCase ''highlight'' = ''highlight''
   \<and> isBlockHasStyle ascii_toLowerCase \<lparr>styled.styles = [''Highlight'', ''Bold'']\<rparr> ''highlight''
   \<and> \<not> isBlockHasStyle ascii_toLowerCase \<lparr>styled.styles = [''Bold'']\<rparr> ''highlight''"
proof -
  have high: "ascii_toLowerCase ''Highlight'' = ''highlight''"
    by code_simp
  have bold: "ascii_toLowerCase ''Bold'' = ''bold''"
    by code_simp
  have low: "ascii_toLowerCase ''highlight'' = ''highlight''"
    by code_simp
  note inst =
    isBlockHasStyle_case_insensitive
      [where toLowerCase = ascii_toLowerCase
         and block = "\<lparr>styled.styles = [''Highlight'', ''Bold'']\<rparr>" and style = "''highlight''"]
  from inst high low
  have yes: "isBlockHasStyle ascii_toLowerCase \<lparr>styled.styles = [''Highlight'', ''Bold'']\<rparr>
               ''highlight''"
    by blast
  from inst bold low
  have no: "\<not> isBlockHasStyle ascii_toLowerCase \<lparr>styled.styles = [''Bold'']\<rparr> ''highlight''"
    by blast
  from high bold low yes no show ?thesis by (intro conjI)
qed

text \<open>
  C7: \<open>getLargeImageVariant\<close> returns the variant at index 1 when the image has two or
  more variants and \<open>undefined\<close> when it has fewer. Widths and heights play no part:
  changing them in every variant changes the result in the same way and nothing else.
\<close>

theorem getLargeImageVariant_second:
  "(2 \<le> length (variants img) \<longrightarrow> getLargeImageVariant img = Defined (variants img ! 1))
   \<and> (length (variants img) < 2 \<longrightarrow> getLargeImageVariant img = Undefined)
   \<and> getLargeImageVariant
        (img\<lparr>variants := map (\<lambda>v. v\<lparr>width := w v, height := ht v\<rparr>) (variants img)\<rparr>)
       = map_maybe (\<lambda>v. v\<lparr>width := w v, height := ht v\<rparr>) (getLargeImageVariant img)"
  by (simp add: getLargeImageVariant_def at_index_def)

text \<open>C7 at an image with three variants and at an image with one.\<close>

theorem getLargeImageVariant_second_witness:
  "2 \<le> length (variants (example_image [example_variant ''s.png'' 100,
                                         example_variant ''l.png'' 800,
                                         example_variant ''xl.png'' 1600]))
   \<and> getLargeImageVariant (example_image [example_variant ''s.png'' 100,
                                           example_variant ''l.png'' 800,
                                           example_variant ''xl.png'' 1600])
       = Defined (example_variant ''l.png'' 800)
   \<and> length (variants (example_image [example_variant ''s.png'' 100])) < 2
   \<and> getLargeImageVariant (example_image [example_variant ''s.png'' 100]) = Undefined"
  using getLargeImageVariant_second
          [where img = "example_image [example_variant ''s.png'' 100,
                                       example_variant ''l.png'' 800,
                                       example_variant ''xl.png'' 1600]"]
        getLargeImageVariant_second
          [where img = "example_image [example_variant ''s.png'' 100]"]
  by (simp add: example_image_def)

text \<open>
  C8: \<open>hasCategory\<close> holds exactly when some category of the page has the given slug,
  compared as strings: a page in the category \<open>blog\<close> is not in \<open>Blog\<close>.
\<close>

theorem hasCategory_exact_slug:
  "(hasCategory page categorySlug
      \<longleftrightarrow> (\<exists>c \<in> set (PageDetail.categories page). Category.slug c = categorySlug))
   \<and> hasCategory (example_page example_categories) ''blog''
   \<and> \<not> hasCategory (example_page example_categories) ''Blog''"
proof -
  have member: "hasCategory page categorySlug
      \<longleftrightarrow> (\<exists>c \<in> set (PageDetail.categories page). Category.slug c = categorySlug)"
    by (auto simp: hasCategory_def Array_includes_iff)
  have yes: "hasCategory (example_page example_categories) ''blog''"
    by (simp add: hasCategory_def example_page_def example_categories_def)
  have no: "\<not> hasCategory (example_page example_categories) ''Blog''"
    by (simp add: hasCategory_def example_page_def example_categories_def)
  from member yes no show ?thesis by (intro conjI)
qed

text \<open>C8 at a page with the categories \<open>news\<close> and \<open>blog\<close>.\<close>

theorem hasCategory_exact_slug_witness:
  "\<lparr>Category.name = ''News'', Category.slug = ''news''\<rparr>
      \<in> set (PageDetail.categories (example_page example_categories))
   \<and> hasCategory (example_page example_categories) ''news''"
proof -
  have inside: "\<lparr>Category.name = ''News'', Category.slug = ''news''\<rparr>
      \<in> set (PageDetail.categories (example_page example_categories))"
    by (simp add: example_page_def example_categories_def)
  note inst =
    hasCategory_exact_slug
      [where page = "example_page example_categories" and categorySlug = "''news''"]
  have "\<exists>c \<in> set (PageDetail.categories (example_page example_categories)).
          Category.slug c = ''news''"
    using inside by (intro bexI [of _ "\<lparr>Category.name = ''News'', Category.slug = ''news''\<rparr>"]) simp_all
  with inst have "hasCategory (example_page example_categories) ''news''"
    by blast
  with inside show ?thesis by (intro conjI)
qed

text \<open>
  C9: \<open>getFirstImage\<close> returns the first image of a block whose \<open>images\<close> list is present
  and non-empty, and \<open>undefined\<close> when the list is empty, \<open>undefined\<close> or \<open>null\<close>.
\<close>

theorem getFirstImage_first_or_absent:
  "(images block = Defined (first # others) \<longrightarrow> getFirstImage block = Defined first)
   \<and> (images block = Defined [] \<longrightarrow> getFirstImage block = Undefined)
   \<and> (images block = Undefined \<longrightarrow> getFirstImage block = Undefined)
   \<and> (images block = Null \<longrightarrow> getFirstImage block = Undefined)"
  by (simp add: getFirstImage_def at_index_def)

text \<open>C9 at blocks with two images, with no image, and without \<open>images\<close>.\<close>

theorem getFirstImage_first_or_absent_witness:
  "images \<lparr>styled.styles = [], images = Defined [example_image [], example_image []]\<rparr>
      = Defined (example_image [] # [example_image []])
   \<and> getFirstImage \<lparr>styled.styles = [], images = Defined [example_image [], example_image []]\<rparr>
      = Defined (example_image [])
   \<and> getFirstImage \<lparr>styled.styles = [], images = Defined []\<rparr> = Undefined
   \<and> getFirstImage \<lparr>styled.styles = [], images = Undefined\<rparr> = Undefined
   \<and> getFirstImage \<lparr>styled.styles = [], images = Null\<rparr> = Undefined"
  using getFirstImage_first_or_absent
          [where block = "\<lparr>styled.styles = [],
                           images = Defined [example_image [], example_image []]\<rparr>"
             and first = "example_image []" and others = "[example_image []]"]
        getFirstImage_first_or_absent
          [where block = "\<lparr>styled.styles = [], images = Defined []\<rparr>"]
        getFirstImage_first_or_absent
          [where block = "\<lparr>styled.styles = [], images = Undefined\<rparr>"]
        getFirstImage_first_or_absent
          [where block = "\<lparr>styled.styles = [], images = Null\<rparr>"]
  by simp

subsection \<open>Empty strings\<close>

text \<open>
  C10: \<open>getPages\<close> with the empty string as category slug behaves as the same call
  without filters, and its request has no \<open>filter.category.slug\<close> parameter;
  \<open>getPageBySlug\<close> with the empty string as version behaves as the call without version,
  and its request has no query parameter.
\<close>

theorem empty_strings_are_absent:
  "getPages this
       (Defined (p\<lparr>filters := Defined \<lparr>category = Defined \<lparr>slug = Defined []\<rparr>\<rparr>\<rparr>)) h
     = getPages this (Defined (p\<lparr>filters := Undefined\<rparr>)) h
   \<and> ''filter.category.slug''
        \<notin> fst ` set (req_params (last (sent (snd (getPages this
             (Defined (p\<lparr>filters := Defined \<lparr>category = Defined \<lparr>slug = Defined []\<rparr>\<rparr>\<rparr>)) h)))))
   \<and> getPageBySlug this page_slug (Defined []) hs = getPageBySlug this page_slug Undefined hs
   \<and> req_params (last (sent (snd (getPageBySlug this page_slug (Defined []) hs)))) = []"
proof -
  have query: "getPages_query
       (Defined (p\<lparr>filters := Defined \<lparr>category = Defined \<lparr>slug = Defined []\<rparr>\<rparr>\<rparr>))
     = getPages_query (Defined (p\<lparr>filters := Undefined\<rparr>))"
    by (simp add: getPages_query_def opt_def truthy_def)
  have pages: "getPages this
       (Defined (p\<lparr>filters := Defined \<lparr>category = Defined \<lparr>slug = Defined []\<rparr>\<rparr>\<rparr>)) h
     = getPages this (Defined (p\<lparr>filters := Undefined\<rparr>)) h"
    by (simp add: getPages_def query)
  have no_filter: "''filter.category.slug''
        \<notin> fst ` set (req_params (last (sent (snd (getPages this
             (Defined (p\<lparr>filters := Defined \<lparr>category = Defined \<lparr>slug = Defined []\<rparr>\<rparr>\<rparr>)) h)))))"
    by (cases "start p"; cases "offset p") (simp_all add: getPages_params_object)
  have page: "getPageBySlug this page_slug (Defined []) hs
                = getPageBySlug this page_slug Undefined hs"
    by (simp add: getPageBySlug_def getPageBySlug_query_def truthy_def)
  have no_v: "req_params (last (sent (snd (getPageBySlug this page_slug (Defined []) hs)))) = []"
    by (simp add: getPageBySlug_sent)
  from pages no_filter page no_v show ?thesis by (intro conjI)
qed

text \<open>C10 at a call with start 10 and offset 5, and at the page \<open>about-us\<close>.\<close>

theorem empty_strings_are_absent_witness:
  "getPages example_service
       (Defined \<lparr>filters = Defined \<lparr>category = Defined \<lparr>slug = Defined []\<rparr>\<rparr>,
                 start = Defined (Decimal False 10 0), offset = Defined (Decimal False 5 0)\<rparr>)
       (failing_client :: PagesResponse HttpClient)
     = getPages example_service
         (Defined \<lparr>filters = Undefined, start = Defined (Decimal False 10 0), offset = Defined (Decimal False 5 0)\<rparr>) failing_client
   \<and> getPageBySlug example_service ''about-us'' (Defined [])
         (failing_client :: PageDetail HttpClient)
     = getPageBySlug example_service ''about-us'' Undefined failing_client"
  using empty_strings_are_absent
          [where this = example_service
             and p = "\<lparr>filters = Undefined, start = Defined (Decimal False 10 0), offset = Defined (Decimal False 5 0)\<rparr>"
             and h = "failing_client :: PagesResponse HttpClient"
             and page_slug = "''about-us''"
             and hs = "failing_client :: PageDetail HttpClient"]
  by simp

end
